theory Spec2Isabelle
  imports Complex_Main
begin

section \<open>Asia SST dashboard (streamlit\_app.py)\<close>

text \<open>
  A shallow embedding of \<^verbatim>\<open>streamlit_app.py\<close>. The program is a thin layer over
  xarray, matplotlib and Streamlit; what those libraries answer is a parameter of the
  model (the remote service) or a small executable model of the documented behaviour of
  the call the program makes (label selection, the two-slope norm, the memoising
  decorator). Every definition names the source lines it embeds.
\<close>

subsection \<open>Dates and the dataset locator\<close>

text \<open>
  \<^verbatim>\<open>datetime.date\<close>: year, month and day. Python only constructs dates with
  \<open>1 \<le> year \<le> 9999\<close> and a day that exists in the month.
\<close>

record date =
  year :: int
  month :: int
  day :: int

definition is_leap :: "int \<Rightarrow> bool" where
  "is_leap y = (y mod 4 = 0 \<and> (y mod 100 \<noteq> 0 \<or> y mod 400 = 0))"

definition days_in_month :: "int \<Rightarrow> int \<Rightarrow> int" where
  "days_in_month y m =
     (if m = 2 then (if is_leap y then 29 else 28)
      else if m = 4 \<or> m = 6 \<or> m = 9 \<or> m = 11 then 30 else 31)"

definition valid_date :: "date \<Rightarrow> bool" where
  "valid_date d =
     (1 \<le> year d \<and> year d \<le> 9999 \<and> 1 \<le> month d \<and> month d \<le> 12 \<and>
      1 \<le> day d \<and> day d \<le> days_in_month (year d) (month d))"

text \<open>Comparison of dates (\<^verbatim>\<open>date.__le__\<close>): year, then month, then day.\<close>

definition date_le :: "date \<Rightarrow> date \<Rightarrow> bool" where
  "date_le a b =
     (year a < year b \<or>
      (year a = year b \<and> (month a < month b \<or> (month a = month b \<and> day a \<le> day b))))"

text \<open>Line 173: \<^verbatim>\<open>min_date = date(1981, 9, 1)\<close>.\<close>

definition min_date :: date where
  "min_date = \<lparr>year = 1981, month = 9, day = 1\<rparr>"

text \<open>
  The date picker (lines 176-182) only hands out dates between \<open>min_date\<close> and
  \<open>max_date\<close>; \<open>max_date\<close> is \<^verbatim>\<open>today - timedelta(days=2)\<close> (line 174), taken here
  as a parameter so that the clock stays outside the model.
\<close>

definition selectable :: "date \<Rightarrow> date \<Rightarrow> bool" where
  "selectable max_date d = (valid_date d \<and> date_le min_date d \<and> date_le d max_date)"

text \<open>Decimal text of an integer, as \<^verbatim>\<open>f"{year}"\<close> formats it.\<close>

definition digit_char :: "nat \<Rightarrow> char" where
  "digit_char n = ''0123456789'' ! (n mod 10)"

function str_nat :: "nat \<Rightarrow> string" where
  "str_nat n = (if n < 10 then [digit_char n] else str_nat (n div 10) @ [digit_char n])"
  by pat_completeness auto
termination
  by (relation "measure (\<lambda>n. n)") auto

declare str_nat.simps [simp del]

definition str_int :: "int \<Rightarrow> string" where
  "str_int i = (if i < 0 then CHR ''-'' # str_nat (nat (- i)) else str_nat (nat i))"

text \<open>Lines 59-60: the locator is built from \<^verbatim>\<open>selected_date.year\<close> only.\<close>

definition url_prefix :: string where
  "url_prefix =
     ''https://psl.noaa.gov/thredds/dodsC/Datasets/noaa.oisst.v2.highres/sst.day.mean.''"

definition data_url :: "date \<Rightarrow> string" where
  "data_url selected_date =
     (let year = year selected_date in url_prefix @ str_int year @ ''.nc'')"

subsection \<open>Errors and access engines\<close>

text \<open>
  The failures that the calls inside the \<^verbatim>\<open>try\<close> block (lines 68-81) raise: all are
  instances of Python's \<^verbatim>\<open>Exception\<close>, which is what the handler on line 82 catches.
  \<^verbatim>\<open>OSError\<close> stands for connectivity and remote-service failures, \<^verbatim>\<open>KeyError\<close> for a
  missing variable or a label that is not on an axis.
\<close>

datatype exn = OSError string | KeyError string | ValueError string | RuntimeError string

text \<open>Line 64: \<^verbatim>\<open>engines_to_try = ["pydap", None]\<close>; \<^verbatim>\<open>None\<close> is xarray's default engine.\<close>

datatype engine = Pydap | Default_engine

definition engines_to_try :: "engine list" where
  "engines_to_try = [Pydap, Default_engine]"

subsection \<open>Remote datasets and arrays\<close>

text \<open>
  A \<^verbatim>\<open>datetime64\<close> value: the calendar date and the nanoseconds after midnight.
  \<^verbatim>\<open>np.datetime64(selected_date)\<close> (line 74) is midnight of that date.
\<close>

type_synonym datetime64 = "date \<times> nat"

definition datetime64_of_date :: "date \<Rightarrow> datetime64" where
  "datetime64_of_date d = (d, 0)"

text \<open>
  A variable of the remote file over the dimensions \<^verbatim>\<open>time\<close>, \<^verbatim>\<open>lat\<close>, \<^verbatim>\<open>lon\<close>: the
  three coordinate axes and the value at each index triple (\<open>None\<close> is the missing-data
  marker, NaN). Coordinates are compared, never computed with, so the exact order of
  the floating-point values is the order of the reals they denote.
\<close>

record variable =
  v_time :: "datetime64 list"
  v_lat :: "real list"
  v_lon :: "real list"
  v_values :: "nat \<Rightarrow> nat \<Rightarrow> nat \<Rightarrow> real option"

text \<open>
  What \<^verbatim>\<open>xr.open_dataset\<close> hands back: the named variables, and whether reading the
  data over the network (\<^verbatim>\<open>.load()\<close>) or closing the handle raises.
\<close>

record remote_dataset =
  variables :: "string \<rightharpoonup> variable"
  load_error :: "exn option"
  close_error :: "exn option"

text \<open>The remote service as one call sees it: \<^verbatim>\<open>xr.open_dataset(data_url, engine=eng)\<close>.\<close>

type_synonym remote = "string \<Rightarrow> engine \<Rightarrow> exn + remote_dataset"

text \<open>
  The \<^verbatim>\<open>DataArray\<close> that the fetcher returns: the dimensions that are left, the scalar
  time coordinate, the two axes, the values by (lat, lon) index, and whether the values
  are in memory.
\<close>

record data_array =
  dims :: "string list"
  time_coord :: datetime64
  lat :: "real list"
  lon :: "real list"
  vals :: "nat \<Rightarrow> nat \<Rightarrow> real option"
  in_memory :: bool

text \<open>Position of a label on an axis (exact match), \<open>None\<close> when it is not there.\<close>

fun index_of :: "'a \<Rightarrow> 'a list \<Rightarrow> nat option" where
  "index_of x [] = None"
| "index_of x (y # ys) = (if x = y then Some 0 else map_option Suc (index_of x ys))"

text \<open>
  Label-based \<^verbatim>\<open>slice(lo, hi)\<close> on an ascending axis, both ends inclusive: the first
  position whose label is not below \<open>lo\<close>, and the position after the last label that is
  not above \<open>hi\<close>. The axes of the OISST files ascend; the model of a slice is meant for
  such axes only.
\<close>

definition slice_start :: "real \<Rightarrow> real list \<Rightarrow> nat" where
  "slice_start lo xs = length (takeWhile (\<lambda>x. x < lo) xs)"

definition slice_stop :: "real \<Rightarrow> real list \<Rightarrow> nat" where
  "slice_stop hi xs = length (takeWhile (\<lambda>x. x \<le> hi) xs)"

definition slice_axis :: "real \<times> real \<Rightarrow> real list \<Rightarrow> real list" where
  "slice_axis b xs =
     take (slice_stop (snd b) xs - slice_start (fst b) xs) (drop (slice_start (fst b) xs) xs)"

text \<open>
  \<^verbatim>\<open>ds["sst"].sel(time=t, lat=slice(..), lon=slice(..))\<close> (lines 73-77): an exact match
  on the time axis (no \<^verbatim>\<open>method=\<close> is given, so a label that is absent raises
  \<^verbatim>\<open>KeyError\<close>), and the two label slices. The result is lazy.
\<close>

definition sel :: "variable \<Rightarrow> datetime64 \<Rightarrow> real \<times> real \<Rightarrow> real \<times> real \<Rightarrow> exn + data_array" where
  "sel v t lat_slice lon_slice =
     (case index_of t (v_time v) of
        None \<Rightarrow> Inl (KeyError ''time'')
      | Some k \<Rightarrow>
          Inr \<lparr>dims = [''lat'', ''lon''],
               time_coord = v_time v ! k,
               lat = slice_axis lat_slice (v_lat v),
               lon = slice_axis lon_slice (v_lon v),
               vals = (\<lambda>i j. v_values v k (slice_start (fst lat_slice) (v_lat v) + i)
                                          (slice_start (fst lon_slice) (v_lon v) + j)),
               in_memory = False\<rparr>)"

text \<open>\<^verbatim>\<open>.squeeze()\<close> (line 77) drops every dimension of length one.\<close>

definition dim_size :: "data_array \<Rightarrow> string \<Rightarrow> nat" where
  "dim_size a n = (if n = ''lat'' then length (lat a) else length (lon a))"

definition squeeze :: "data_array \<Rightarrow> data_array" where
  "squeeze a = a\<lparr>dims := filter (\<lambda>n. dim_size a n \<noteq> 1) (dims a)\<rparr>"

text \<open>\<^verbatim>\<open>sst_data.isnull().all()\<close> (line 187); true of an array with no entry.\<close>

definition isnull_all :: "data_array \<Rightarrow> bool" where
  "isnull_all a =
     list_all (\<lambda>i. list_all (\<lambda>j. vals a i j = None) [0..<length (lon a)]) [0..<length (lat a)]"

text \<open>\<^verbatim>\<open>.min()\<close> and \<^verbatim>\<open>.max()\<close> of a numpy array; a zero-size array raises \<^verbatim>\<open>ValueError\<close>.\<close>

fun array_min :: "real list \<Rightarrow> exn + real" where
  "array_min [] = Inl (ValueError ''zero-size array'')"
| "array_min (x # xs) = Inr (fold min xs x)"

fun array_max :: "real list \<Rightarrow> exn + real" where
  "array_max [] = Inl (ValueError ''zero-size array'')"
| "array_max (x # xs) = Inr (fold max xs x)"

subsection \<open>Colour mapping\<close>

text \<open>
  \<^verbatim>\<open>TwoSlopeNorm(vmin=20, vcenter=30, vmax=34)\<close> (lines 122 and 144). Calling the norm
  interpolates linearly through \<open>(vmin, 0)\<close>, \<open>(vcenter, 1/2)\<close>, \<open>(vmax, 1)\<close>; below
  \<open>vmin\<close> and above \<open>vmax\<close> it extrapolates to minus and plus infinity, and a missing
  value stays masked.
\<close>

record two_slope_norm =
  vmin :: real
  vcenter :: real
  vmax :: real

datatype normed = Neg_inf | Finite real | Pos_inf | Masked

definition norm_call :: "two_slope_norm \<Rightarrow> real option \<Rightarrow> normed" where
  "norm_call n v =
     (case v of
        None \<Rightarrow> Masked
      | Some x \<Rightarrow>
          if x < vmin n then Neg_inf
          else if vmax n < x then Pos_inf
          else if x < vcenter n then Finite ((x - vmin n) * (1 / 2) / (vcenter n - vmin n))
          else if x = vcenter n then Finite (1 / 2)
          else Finite (1 / 2 + (x - vcenter n) * (1 / 2) / (vmax n - vcenter n)))"

text \<open>
  A matplotlib colormap with \<open>N = 256\<close> entries: a normalised value \<open>x\<close> selects entry
  \<open>\<lfloor>x * N\<rfloor>\<close>, the value 1 the last entry; values under 0 take the under colour and
  values over 1 the over colour, which are the first and the last entry unless set
  otherwise (the program does not set them); a masked value takes the bad colour.
\<close>

datatype color = Lut nat | Bad

definition cmap_N :: nat where
  "cmap_N = 256"

definition cmap_call :: "normed \<Rightarrow> color" where
  "cmap_call x =
     (case x of
        Masked \<Rightarrow> Bad
      | Neg_inf \<Rightarrow> Lut 0
      | Pos_inf \<Rightarrow> Lut (cmap_N - 1)
      | Finite r \<Rightarrow>
          if r < 0 then Lut 0
          else if real cmap_N \<le> r * real cmap_N then Lut (cmap_N - 1)
          else Lut (nat \<lfloor>r * real cmap_N\<rfloor>))"

subsection \<open>Figures and the two renderers\<close>

datatype gridlines = Labels_left_bottom | Labels_default | Dashed_grid

record figure =
  fig_projection :: "string option"
  fig_features :: "string list"
  fig_extent :: "(real \<times> real \<times> real \<times> real) option"
  fig_gridlines :: gridlines
  fig_norm :: two_slope_norm
  fig_cmap :: string
  fig_mesh :: data_array
  fig_xlim :: "(real \<times> real) option"
  fig_ylim :: "(real \<times> real) option"
  fig_title :: date

text \<open>The colour in which a figure draws a value: its palette applied to its norm.\<close>

definition fig_color :: "figure \<Rightarrow> real option \<Rightarrow> string \<times> color" where
  "fig_color fig v = (fig_cmap fig, cmap_call (norm_call (fig_norm fig) v))"

text \<open>\<^verbatim>\<open>pcolormesh\<close> needs a two-dimensional array of values.\<close>

definition pcolormesh :: "data_array \<Rightarrow> exn + data_array" where
  "pcolormesh a = (if length (dims a) = 2 then Inr a else Inl (ValueError ''pcolormesh''))"

text \<open>
  How the installed cartopy answers the two \<^verbatim>\<open>ax.gridlines\<close> calls of lines 110 and 114.
\<close>

record cartopy =
  labelled_gridlines_error :: "exn option"
  fallback_gridlines_error :: "exn option"

text \<open>Lines 98-137.\<close>

definition create_map_with_cartopy :: "cartopy \<Rightarrow> data_array \<Rightarrow> date \<Rightarrow> exn + figure" where
  "create_map_with_cartopy cp sst_data selected_date =
     (case (case labelled_gridlines_error cp of
              None \<Rightarrow> Inr Labels_left_bottom
            | Some _ \<Rightarrow>
                (case fallback_gridlines_error cp of
                   None \<Rightarrow> Inr Labels_default
                 | Some e \<Rightarrow> Inl e)) of
        Inl e \<Rightarrow> Inl e
      | Inr gl \<Rightarrow>
          (let norm = \<lparr>vmin = 20, vcenter = 30, vmax = 34\<rparr>;
               cmap = ''YlOrRd''
           in case pcolormesh sst_data of
                Inl e \<Rightarrow> Inl e
              | Inr mesh \<Rightarrow>
                  Inr \<lparr>fig_projection = Some ''PlateCarree'',
                       fig_features = [''LAND'', ''COASTLINE''],
                       fig_extent = Some (60, 150, -10, 60),
                       fig_gridlines = gl,
                       fig_norm = norm,
                       fig_cmap = cmap,
                       fig_mesh = mesh,
                       fig_xlim = None,
                       fig_ylim = None,
                       fig_title = selected_date\<rparr>))"

text \<open>Lines 139-160.\<close>

definition create_simple_latlon_plot :: "data_array \<Rightarrow> date \<Rightarrow> exn + figure" where
  "create_simple_latlon_plot sst_data selected_date =
     (let norm = \<lparr>vmin = 20, vcenter = 30, vmax = 34\<rparr>;
          cmap = ''YlOrRd'';
          lon = lon sst_data;
          lat = lat sst_data
      in case pcolormesh sst_data of
           Inl e \<Rightarrow> Inl e
         | Inr mesh \<Rightarrow>
             (case (array_min lon, array_max lon) of
                (Inl e, _) \<Rightarrow> Inl e
              | (_, Inl e) \<Rightarrow> Inl e
              | (Inr lon_min, Inr lon_max) \<Rightarrow>
                  (case (array_min lat, array_max lat) of
                     (Inl e, _) \<Rightarrow> Inl e
                   | (_, Inl e) \<Rightarrow> Inl e
                   | (Inr lat_min, Inr lat_max) \<Rightarrow>
                       Inr \<lparr>fig_projection = None,
                            fig_features = [],
                            fig_extent = None,
                            fig_gridlines = Dashed_grid,
                            fig_norm = norm,
                            fig_cmap = cmap,
                            fig_mesh = mesh,
                            fig_xlim = Some (lon_min, lon_max),
                            fig_ylim = Some (lat_min, lat_max),
                            fig_title = selected_date\<rparr>)))"

subsection \<open>The session: library calls, page elements, cache\<close>

datatype renderer = Cartopy_renderer | Plain_renderer

text \<open>
  The calls that matter to the properties below, in the order they happen:
  \<open>Open_call\<close> is an invocation of \<^verbatim>\<open>xr.open_dataset\<close> (a network access attempt),
  \<open>Opened\<close> its returning a handle, \<open>Loaded\<close> the end of \<^verbatim>\<open>.load()\<close>, \<open>Closed\<close> the end of
  \<^verbatim>\<open>ds.close()\<close>, \<open>Render\<close> a call of one of the two renderers.
\<close>

datatype event =
    Open_call string engine
  | Opened string engine
  | Loaded string engine
  | Closed string engine
  | Render renderer data_array date

text \<open>
  What the page shows, one constructor per Streamlit call of the program (the texts
  themselves are left out): \<open>Source_info\<close> is line 61, \<open>Load_error\<close> lines 86-94 with the
  last error, \<open>No_data_info\<close> line 205.
\<close>

datatype ui_element =
    Font_warning
  | Page_title
  | Intro_markdown
  | Sidebar_header
  | Source_info string
  | Load_error "exn option"
  | Subheader date
  | No_cartopy_info
  | Pyplot figure
  | Preview "real \<times> real" "real \<times> real" data_array
  | No_data_info

record session =
  events :: "event list"
  ui :: "ui_element list"
  cache :: "date \<rightharpoonup> data_array option \<times> ui_element list"

text \<open>The handles that were opened and not closed, in the order of opening.\<close>

fun open_handles :: "event list \<Rightarrow> (string \<times> engine) list" where
  "open_handles [] = []"
| "open_handles (Opened u e # evs) =
     (if Closed u e \<in> set evs then open_handles evs else (u, e) # open_handles evs)"
| "open_handles (_ # evs) = open_handles evs"

text \<open>The network access attempts among the events.\<close>

fun open_calls :: "event list \<Rightarrow> (string \<times> engine) list" where
  "open_calls [] = []"
| "open_calls (Open_call u e # evs) = (u, e) # open_calls evs"
| "open_calls (_ # evs) = open_calls evs"

subsection \<open>The fetcher\<close>

text \<open>
  One pass through the body of the \<^verbatim>\<open>try\<close> (lines 69-81) for one engine: the value
  returned or the exception raised, and the calls made on the way.
\<close>

definition attempt :: "remote \<Rightarrow> string \<Rightarrow> date \<Rightarrow> engine \<Rightarrow> (exn + data_array) \<times> event list" where
  "attempt open_dataset url selected_date eng =
     (case open_dataset url eng of
        Inl e \<Rightarrow> (Inl e, [Open_call url eng])
      | Inr ds \<Rightarrow>
          (case variables ds ''sst'' of
             None \<Rightarrow> (Inl (KeyError ''sst''), [Open_call url eng, Opened url eng])
           | Some v \<Rightarrow>
               (case sel v (datetime64_of_date selected_date) (-10, 60) (60, 150) of
                  Inl e \<Rightarrow> (Inl e, [Open_call url eng, Opened url eng])
                | Inr a \<Rightarrow>
                    (let asia_sst = squeeze a
                     in case load_error ds of
                          Some e \<Rightarrow> (Inl e, [Open_call url eng, Opened url eng])
                        | None \<Rightarrow>
                            (let data = asia_sst\<lparr>in_memory := True\<rparr>
                             in case close_error ds of
                                  Some e \<Rightarrow>
                                    (Inl e, [Open_call url eng, Opened url eng, Loaded url eng])
                                | None \<Rightarrow>
                                    (Inr data,
                                     [Open_call url eng, Opened url eng, Loaded url eng,
                                      Closed url eng]))))))"

text \<open>
  The loop of lines 67-84: the first attempt that returns ends the function with its
  data; an attempt that raises stores the exception in \<^verbatim>\<open>last_err\<close> and the loop goes
  on. \<open>Exhausted\<close> is the loop running off the end of the list.
\<close>

datatype loop_result = Return data_array | Exhausted "exn option"

fun try_engines ::
  "remote \<Rightarrow> string \<Rightarrow> date \<Rightarrow> engine list \<Rightarrow> exn option \<Rightarrow> loop_result \<times> event list" where
  "try_engines open_dataset url selected_date [] last_err = (Exhausted last_err, [])"
| "try_engines open_dataset url selected_date (eng # engs) last_err =
     (case attempt open_dataset url selected_date eng of
        (Inr data, evs) \<Rightarrow> (Return data, evs)
      | (Inl e, evs) \<Rightarrow>
          (case try_engines open_dataset url selected_date engs (Some e) of
             (r, evs') \<Rightarrow> (r, evs @ evs')))"

text \<open>Lines 53-95, the function under the decorator.\<close>

definition load_sst_data :: "remote \<Rightarrow> date \<Rightarrow> session \<Rightarrow> data_array option \<times> session" where
  "load_sst_data open_dataset selected_date s =
     (let url = data_url selected_date;
          s1 = s\<lparr>ui := ui s @ [Source_info url]\<rparr>
      in case try_engines open_dataset url selected_date engines_to_try None of
           (Return data, evs) \<Rightarrow> (Some data, s1\<lparr>events := events s1 @ evs\<rparr>)
         | (Exhausted last_err, evs) \<Rightarrow>
             (None, s1\<lparr>events := events s1 @ evs, ui := ui s1 @ [Load_error last_err]\<rparr>))"

text \<open>
  Line 52, \<^verbatim>\<open>@st.cache_data\<close> with neither \<^verbatim>\<open>ttl\<close> nor \<^verbatim>\<open>max_entries\<close>: the returned
  value is stored under the argument and never evicted; a later call with a stored
  argument does not run the function, returns the stored value and replays the page
  elements that the function had produced.
\<close>

definition cache_data ::
  "(date \<Rightarrow> session \<Rightarrow> data_array option \<times> session) \<Rightarrow> date \<Rightarrow> session
     \<Rightarrow> data_array option \<times> session" where
  "cache_data f key s =
     (case cache s key of
        Some (value, elements) \<Rightarrow> (value, s\<lparr>ui := ui s @ elements\<rparr>)
      | None \<Rightarrow>
          (case f key s of
             (value, s') \<Rightarrow>
               (value, s'\<lparr>cache := (cache s')(key \<mapsto> (value, drop (length (ui s)) (ui s')))\<rparr>)))"

subsection \<open>The page\<close>

text \<open>Lines 31-49: the warning of line 45 when the font file is missing.\<close>

definition setup_korean_font :: "bool \<Rightarrow> session \<Rightarrow> session" where
  "setup_korean_font font_exists s =
     (if font_exists then s else s\<lparr>ui := ui s @ [Font_warning]\<rparr>)"

text \<open>Lines 199-202: the extents shown in the preview caption.\<close>

definition extents :: "data_array \<Rightarrow> exn + (real \<times> real) \<times> (real \<times> real)" where
  "extents a =
     (case array_min (lat a) of
        Inl e \<Rightarrow> Inl e
      | Inr lat_min \<Rightarrow>
          (case array_max (lat a) of
             Inl e \<Rightarrow> Inl e
           | Inr lat_max \<Rightarrow>
               (case array_min (lon a) of
                  Inl e \<Rightarrow> Inl e
                | Inr lon_min \<Rightarrow>
                    (case array_max (lon a) of
                       Inl e \<Rightarrow> Inl e
                     | Inr lon_max \<Rightarrow> Inr ((lat_min, lat_max), (lon_min, lon_max))))))"

text \<open>
  Lines 163-205. \<open>font_exists\<close>, \<open>HAS_CARTOPY\<close> and the cartopy installation are what the
  process found at start, \<open>selected_date\<close> is what the date picker returned. The result
  is the exception that left \<^verbatim>\<open>main\<close>, if any, and the session afterwards.
\<close>

definition main ::
  "bool \<Rightarrow> bool \<Rightarrow> cartopy \<Rightarrow> remote \<Rightarrow> date option \<Rightarrow> session \<Rightarrow> exn option \<times> session" where
  "main font_exists HAS_CARTOPY cp open_dataset selected_date s0 =
     (let s1 = setup_korean_font font_exists s0;
          s2 = s1\<lparr>ui := ui s1 @ [Page_title, Intro_markdown, Sidebar_header]\<rparr>
      in case selected_date of
           None \<Rightarrow> (None, s2)
         | Some d \<Rightarrow>
             (case cache_data (load_sst_data open_dataset) d s2 of
                (sst_data, s3) \<Rightarrow>
                  (case sst_data of
                     None \<Rightarrow> (None, s3\<lparr>ui := ui s3 @ [No_data_info]\<rparr>)
                   | Some g \<Rightarrow>
                       if \<not> isnull_all g then
                         (let s4 = s3\<lparr>ui := ui s3 @ [Subheader d]\<rparr>;
                              s5 = (if HAS_CARTOPY
                                    then s4\<lparr>events := events s4 @ [Render Cartopy_renderer g d]\<rparr>
                                    else s4\<lparr>ui := ui s4 @ [No_cartopy_info],
                                            events := events s4 @ [Render Plain_renderer g d]\<rparr>);
                              fig = (if HAS_CARTOPY
                                     then create_map_with_cartopy cp g d
                                     else create_simple_latlon_plot g d)
                          in case fig of
                               Inl e \<Rightarrow> (Some e, s5)
                             | Inr fig \<Rightarrow>
                                 (let s6 = s5\<lparr>ui := ui s5 @ [Pyplot fig]\<rparr>
                                  in case extents g of
                                       Inl e \<Rightarrow> (Some e, s6)
                                     | Inr (la, lo) \<Rightarrow>
                                         (None, s6\<lparr>ui := ui s6 @ [Preview la lo g]\<rparr>)))
                       else (None, s3\<lparr>ui := ui s3 @ [No_data_info]\<rparr>))))"

subsection \<open>Vocabulary of the properties\<close>



text \<open>A session in which nothing has happened yet.\<close>

definition empty_session :: session where
  "empty_session = \<lparr>events = [], ui = [], cache = Map.empty\<rparr>"

text \<open>
  A run of fetches through the cache within one session, each with the service as it
  is at that moment.
\<close>

definition fetches :: "(remote \<times> date) list \<Rightarrow> session \<Rightarrow> session" where
  "fetches calls s =
     fold (\<lambda>c s'. snd (cache_data (load_sst_data (fst c)) (snd c) s')) calls s"

text \<open>The session when \<^verbatim>\<open>main\<close> reaches line 184: lines 164-169 have run.\<close>

definition page_head :: "bool \<Rightarrow> session \<Rightarrow> session" where
  "page_head font_exists s0 =
     (setup_korean_font font_exists s0)
       \<lparr>ui := ui (setup_korean_font font_exists s0)
               @ [Page_title, Intro_markdown, Sidebar_header]\<rparr>"

subsection \<open>A sample service\<close>

text \<open>
  A small file for the year 2023 with two days, four latitudes and four longitudes
  around the edges of the box, and one missing value; and a service that serves it
  under the 2023 locator with either engine and nothing else.
\<close>

definition example_variable :: variable where
  "example_variable =
     \<lparr>v_time = [(\<lparr>year = 2023, month = 7, day = 14\<rparr>, 0),
                (\<lparr>year = 2023, month = 7, day = 15\<rparr>, 0)],
      v_lat = [-10.125, -9.875, 59.875, 60.125],
      v_lon = [59.875, 60.125, 149.875, 150.125],
      v_values = (\<lambda>t i j. if i = 1 \<and> j = 1 then None
                            else Some (20 + real t + real i + real j))\<rparr>"

definition example_dataset :: remote_dataset where
  "example_dataset =
     \<lparr>variables = [''sst'' \<mapsto> example_variable], load_error = None, close_error = None\<rparr>"

definition example_remote :: remote where
  "example_remote url eng =
     (if url = url_prefix @ ''2023.nc'' then Inr example_dataset else Inl (OSError ''404''))"

text \<open>
  A date that is in the sample file, the grid that the box cuts out of the file for
  it, and a date of the same year that the file does not hold yet.
\<close>

definition example_date :: date where
  "example_date = \<lparr>year = 2023, month = 7, day = 15\<rparr>"

definition unpublished_date :: date where
  "unpublished_date = \<lparr>year = 2023, month = 7, day = 16\<rparr>"

definition example_grid :: data_array where
  "example_grid =
     \<lparr>dims = [''lat'', ''lon''],
      time_coord = (example_date, 0),
      lat = [-9.875, 59.875],
      lon = [60.125, 149.875],
      vals = (\<lambda>i j. v_values example_variable 1 (1 + i) (1 + j)),
      in_memory = True\<rparr>"

text \<open>
  A service where reading the data through pydap times out after the file has been
  opened, and the default engine fetches the sample file.
\<close>

definition pydap_broken_remote :: remote where
  "pydap_broken_remote url eng =
     (case eng of
        Pydap \<Rightarrow> Inr (example_dataset\<lparr>load_error := Some (OSError ''read timed out'')\<rparr>)
      | Default_engine \<Rightarrow> Inr example_dataset)"

text \<open>A service that is down: every open raises.\<close>

definition offline_remote :: remote where
  "offline_remote url eng = Inl (OSError ''unreachable'')"

text \<open>The figure that the plain renderer draws of the sample grid.\<close>

definition example_figure :: figure where
  "example_figure =
     \<lparr>fig_projection = None,
      fig_features = [],
      fig_extent = None,
      fig_gridlines = Dashed_grid,
      fig_norm = \<lparr>vmin = 20, vcenter = 30, vmax = 34\<rparr>,
      fig_cmap = ''YlOrRd'',
      fig_mesh = example_grid,
      fig_xlim = Some (60.125, 149.875),
      fig_ylim = Some (-9.875, 59.875),
      fig_title = example_date\<rparr>"

text \<open>
  A cartopy installation whose labelled gridlines work, and the figure that the
  projected renderer draws of the sample grid with it.
\<close>

definition example_cartopy :: cartopy where
  "example_cartopy = \<lparr>labelled_gridlines_error = None, fallback_gridlines_error = None\<rparr>"

definition example_map :: figure where
  "example_map =
     \<lparr>fig_projection = Some ''PlateCarree'',
      fig_features = [''LAND'', ''COASTLINE''],
      fig_extent = Some (60, 150, -10, 60),
      fig_gridlines = Labels_left_bottom,
      fig_norm = \<lparr>vmin = 20, vcenter = 30, vmax = 34\<rparr>,
      fig_cmap = ''YlOrRd'',
      fig_mesh = example_grid,
      fig_xlim = None,
      fig_ylim = None,
      fig_title = example_date\<rparr>"

section \<open>Properties\<close>

subsection \<open>The locator\<close>

lemma str_nat_four_digits:
  assumes "1000 \<le> n" and "n \<le> 9999"
  shows "length (str_nat n) = 4"
proof -
  have a: "\<not> n < 10" "\<not> n div 10 < 10" "\<not> n div 10 div 10 < 10" "n div 10 div 10 div 10 < 10"
    using assms by auto
  show ?thesis
    by (subst str_nat.simps, simp only: a if_False,
        subst str_nat.simps, simp only: a if_False,
        subst str_nat.simps, simp only: a if_False,
        subst str_nat.simps, simp only: a if_True) simp
qed

lemma str_nat_digits: "set (str_nat n) \<subseteq> set ''0123456789''"
proof (induction n rule: str_nat.induct)
  case (1 n)
  have d: "digit_char n \<in> set ''0123456789''"
    unfolding digit_char_def by (rule nth_mem) simp
  show ?case
  proof (cases "n < 10")
    case True
    then show ?thesis using d by (subst str_nat.simps) simp
  next
    case False
    then show ?thesis using d "1" by (subst str_nat.simps) simp
  qed
qed

text \<open>
  C7. Two selectable dates of the same calendar year have the same locator; the locator
  is the fixed prefix, the year as four decimal digits, and \<^verbatim>\<open>.nc\<close>.
\<close>

theorem C7_locator_depends_on_year_only:
  assumes "selectable max_date d1" and "selectable max_date d2"
    and "year d1 = year d2"
  shows "data_url d1 = data_url d2
    \<and> data_url d1 = url_prefix @ str_int (year d1) @ ''.nc''
    \<and> length (str_int (year d1)) = 4
    \<and> set (str_int (year d1)) \<subseteq> set ''0123456789''"
proof -
  have y: "1981 \<le> year d1" "year d1 \<le> 9999"
    using assms(1) by (auto simp: selectable_def valid_date_def date_le_def min_date_def)
  have n: "str_int (year d1) = str_nat (nat (year d1))"
    using y by (simp add: str_int_def)
  have "length (str_nat (nat (year d1))) = 4"
    using y by (intro str_nat_four_digits) auto
  then show ?thesis
    using assms(3) n str_nat_digits [of "nat (year d1)"] by (simp add: data_url_def)
qed

theorem C7_locator_witness:
  "selectable \<lparr>year = 2024, month = 12, day = 31\<rparr> \<lparr>year = 2023, month = 7, day = 15\<rparr>
   \<and> selectable \<lparr>year = 2024, month = 12, day = 31\<rparr> \<lparr>year = 2023, month = 1, day = 2\<rparr>
   \<and> data_url \<lparr>year = 2023, month = 7, day = 15\<rparr> = data_url \<lparr>year = 2023, month = 1, day = 2\<rparr>
   \<and> data_url \<lparr>year = 2023, month = 7, day = 15\<rparr> = url_prefix @ ''2023.nc''"
proof -
  have s1: "selectable \<lparr>year = 2024, month = 12, day = 31\<rparr> \<lparr>year = 2023, month = 7, day = 15\<rparr>"
    by (simp add: selectable_def valid_date_def date_le_def min_date_def days_in_month_def)
  have s2: "selectable \<lparr>year = 2024, month = 12, day = 31\<rparr> \<lparr>year = 2023, month = 1, day = 2\<rparr>"
    by (simp add: selectable_def valid_date_def date_le_def min_date_def days_in_month_def)
  have u: "data_url \<lparr>year = 2023, month = 7, day = 15\<rparr> = url_prefix @ ''2023.nc''"
    by (simp add: data_url_def str_int_def str_nat.simps digit_char_def)
  show ?thesis
    using C7_locator_depends_on_year_only [OF s1 s2] s1 s2 u by simp
qed

subsection \<open>The fetcher\<close>

lemma open_calls_append: "open_calls (xs @ ys) = open_calls xs @ open_calls ys"
  by (induction xs rule: open_calls.induct) auto

lemma attempt_open_calls: "open_calls (snd (attempt od url d eng)) = [(url, eng)]"
  by (auto simp: attempt_def Let_def split: sum.splits option.splits)

lemma try_engines_two:
  "try_engines od url d [Pydap, Default_engine] last_err =
     (case attempt od url d Pydap of
        (Inr data, evs) \<Rightarrow> (Return data, evs)
      | (Inl e1, evs1) \<Rightarrow>
          (case attempt od url d Default_engine of
             (Inr data, evs2) \<Rightarrow> (Return data, evs1 @ evs2)
           | (Inl e2, evs2) \<Rightarrow> (Exhausted (Some e2), evs1 @ evs2)))"
  by (simp split: prod.splits sum.splits)

lemma load_first:
  assumes "attempt od (data_url d) d Pydap = (Inr data, evs)"
  shows "load_sst_data od d s =
    (Some data, s\<lparr>ui := ui s @ [Source_info (data_url d)], events := events s @ evs\<rparr>)"
  using assms by (simp add: load_sst_data_def engines_to_try_def try_engines_two Let_def)

lemma load_second:
  assumes "attempt od (data_url d) d Pydap = (Inl e1, evs1)"
    and "attempt od (data_url d) d Default_engine = (Inr data, evs2)"
  shows "load_sst_data od d s =
    (Some data, s\<lparr>ui := ui s @ [Source_info (data_url d)], events := events s @ evs1 @ evs2\<rparr>)"
  using assms by (simp add: load_sst_data_def engines_to_try_def try_engines_two Let_def)

lemma load_none:
  assumes "attempt od (data_url d) d Pydap = (Inl e1, evs1)"
    and "attempt od (data_url d) d Default_engine = (Inl e2, evs2)"
  shows "load_sst_data od d s =
    (None, s\<lparr>ui := ui s @ [Source_info (data_url d), Load_error (Some e2)],
             events := events s @ evs1 @ evs2\<rparr>)"
  using assms by (simp add: load_sst_data_def engines_to_try_def try_engines_two Let_def)

lemma index_of_None: "index_of x xs = None \<longleftrightarrow> x \<notin> set xs"
  by (induction xs) auto


lemma sel_raises: "(\<exists>e. sel v t la lo = Inl e) \<longleftrightarrow> t \<notin> set (v_time v)"
  using index_of_None [of t "v_time v"] by (auto simp: sel_def split: option.splits)




lemma try_engines_open_calls:
  "\<exists>n\<le>length engs. open_calls (snd (try_engines od url d engs last_err))
      = map (Pair url) (take n engs)"
proof (induction engs arbitrary: last_err)
  case Nil
  then show ?case by simp
next
  case (Cons eng engs)
  obtain r evs where a: "attempt od url d eng = (r, evs)"
    by (cases "attempt od url d eng")
  have oc: "open_calls evs = [(url, eng)]"
    using attempt_open_calls [of od url d eng] a by simp
  show ?case
  proof (cases r)
    case (Inr data)
    then have "open_calls (snd (try_engines od url d (eng # engs) last_err))
        = map (Pair url) (take 1 (eng # engs))"
      using a oc by simp
    then show ?thesis by (intro exI [of _ 1]) simp
  next
    case (Inl e)
    obtain n where n: "n \<le> length engs"
      "open_calls (snd (try_engines od url d engs (Some e))) = map (Pair url) (take n engs)"
      using Cons.IH [of "Some e"] by blast
    have "open_calls (snd (try_engines od url d (eng # engs) last_err))
        = map (Pair url) (take (Suc n) (eng # engs))"
      using a oc Inl n(2)
      by (cases "try_engines od url d engs (Some e)") (simp add: open_calls_append)
    then show ?thesis using n(1) by (intro exI [of _ "Suc n"]) simp
  qed
qed

lemma load_events:
  "events (snd (load_sst_data od d s))
     = events s @ snd (try_engines od (data_url d) d engines_to_try None)"
  by (simp add: load_sst_data_def Let_def split: prod.splits loop_result.splits)

lemma post_open_failure:
  assumes "od url eng = Inr ds"
    and "variables ds ''sst'' = None
         \<or> (\<exists>v. variables ds ''sst'' = Some v \<and> datetime64_of_date d \<notin> set (v_time v))
         \<or> load_error ds \<noteq> None"
  shows "\<exists>e. fst (attempt od url d eng) = Inl e"
proof (cases "variables ds ''sst''")
  case None
  then show ?thesis using assms(1) by (simp add: attempt_def)
next
  case (Some v)
  show ?thesis
  proof (cases "sel v (datetime64_of_date d) (-10, 60) (60, 150)")
    case (Inl e)
    then show ?thesis using assms(1) Some by (simp add: attempt_def)
  next
    case (Inr a)
    then have "datetime64_of_date d \<in> set (v_time v)"
      using sel_raises [of v "datetime64_of_date d" "(-10, 60)" "(60, 150)"] by auto
    then have "load_error ds \<noteq> None" using assms(2) Some by auto
    then show ?thesis using assms(1) Some Inr by (auto simp: attempt_def Let_def)
  qed
qed

lemma example_url: "data_url example_date = url_prefix @ ''2023.nc''"
  "data_url unpublished_date = url_prefix @ ''2023.nc''"
  by (simp_all add: example_date_def unpublished_date_def data_url_def str_int_def
      str_nat.simps digit_char_def)

lemma example_attempt:
  "attempt example_remote (url_prefix @ ''2023.nc'') example_date eng =
     (Inr example_grid,
      [Open_call (url_prefix @ ''2023.nc'') eng, Opened (url_prefix @ ''2023.nc'') eng,
       Loaded (url_prefix @ ''2023.nc'') eng, Closed (url_prefix @ ''2023.nc'') eng])"
  by (simp add: attempt_def example_remote_def example_dataset_def example_variable_def
      example_date_def example_grid_def datetime64_of_date_def sel_def squeeze_def
      dim_size_def slice_axis_def slice_start_def slice_stop_def)

lemma unpublished_attempt:
  "attempt example_remote (url_prefix @ ''2023.nc'') unpublished_date eng =
     (Inl (KeyError ''time''),
      [Open_call (url_prefix @ ''2023.nc'') eng, Opened (url_prefix @ ''2023.nc'') eng])"
  by (simp add: attempt_def example_remote_def example_dataset_def example_variable_def
      unpublished_date_def datetime64_of_date_def sel_def)

lemma pydap_broken_attempt:
  "attempt pydap_broken_remote (url_prefix @ ''2023.nc'') example_date Pydap =
     (Inl (OSError ''read timed out''),
      [Open_call (url_prefix @ ''2023.nc'') Pydap, Opened (url_prefix @ ''2023.nc'') Pydap])"
  "attempt pydap_broken_remote (url_prefix @ ''2023.nc'') example_date Default_engine =
     attempt example_remote (url_prefix @ ''2023.nc'') example_date Default_engine"
  by (simp_all add: attempt_def pydap_broken_remote_def example_remote_def
      example_dataset_def example_variable_def example_date_def datetime64_of_date_def sel_def)

text \<open>
  C2 as stated fails: with the sample service whose transfer through pydap times out,
  the pydap open succeeds, the materialisation after it raises, and the call still
  returns the grid, fetched through the default engine.
\<close>

theorem C2_post_open_error_counterexample:
  "fst (attempt pydap_broken_remote (data_url example_date) example_date Pydap)
     = Inl (OSError ''read timed out'')
   \<and> snd (attempt pydap_broken_remote (data_url example_date) example_date Pydap)
     = [Open_call (data_url example_date) Pydap, Opened (data_url example_date) Pydap]
   \<and> fst (load_sst_data pydap_broken_remote example_date empty_session) = Some example_grid"
  using load_second [of pydap_broken_remote example_date _ _ example_grid _ empty_session]
  by (simp add: example_url pydap_broken_attempt example_attempt)

text \<open>
  C2, amended. A step after a successful open that raises (missing variable, no
  time-slice, transfer) makes that attempt raise. When the attempt of every engine of the
  list raises, the fetcher returns the failure marker and the error element carries the
  exception of the last engine. A call makes at most one open attempt per engine, in the
  order of the list. When the pydap attempt raises and the default attempt returns, the
  call returns that data.
\<close>

theorem C2_failure_needs_every_attempt_to_fail:
  "(od url eng = Inr ds \<and>
      (variables ds ''sst'' = None
       \<or> (\<exists>v. variables ds ''sst'' = Some v \<and> datetime64_of_date d \<notin> set (v_time v))
       \<or> load_error ds \<noteq> None)
     \<longrightarrow> (\<exists>e. fst (attempt od url d eng) = Inl e))
   \<and> ((\<forall>eng\<in>set engines_to_try. \<exists>e. fst (attempt od (data_url d) d eng) = Inl e)
     \<longrightarrow> fst (load_sst_data od d s) = None
         \<and> (\<forall>e. fst (attempt od (data_url d) d (last engines_to_try)) = Inl e
               \<longrightarrow> last (ui (snd (load_sst_data od d s))) = Load_error (Some e)))
   \<and> (\<exists>n\<le>length engines_to_try.
         open_calls (events (snd (load_sst_data od d s)))
           = open_calls (events s) @ map (Pair (data_url d)) (take n engines_to_try))
   \<and> ((\<exists>e. fst (attempt od (data_url d) d Pydap) = Inl e)
       \<and> fst (attempt od (data_url d) d Default_engine) = Inr data
     \<longrightarrow> fst (load_sst_data od d s) = Some data)"
proof (intro conjI)
  show "od url eng = Inr ds \<and>
      (variables ds ''sst'' = None
       \<or> (\<exists>v. variables ds ''sst'' = Some v \<and> datetime64_of_date d \<notin> set (v_time v))
       \<or> load_error ds \<noteq> None)
     \<longrightarrow> (\<exists>e. fst (attempt od url d eng) = Inl e)"
    using post_open_failure [of od url eng ds d] by blast
next
  show "(\<forall>eng\<in>set engines_to_try. \<exists>e. fst (attempt od (data_url d) d eng) = Inl e)
     \<longrightarrow> fst (load_sst_data od d s) = None
         \<and> (\<forall>e. fst (attempt od (data_url d) d (last engines_to_try)) = Inl e
               \<longrightarrow> last (ui (snd (load_sst_data od d s))) = Load_error (Some e))"
  proof
    assume all: "\<forall>eng\<in>set engines_to_try. \<exists>e. fst (attempt od (data_url d) d eng) = Inl e"
    obtain e1 evs1 where a1: "attempt od (data_url d) d Pydap = (Inl e1, evs1)"
      using all by (cases "attempt od (data_url d) d Pydap") (auto simp: engines_to_try_def)
    obtain e2 evs2 where a2: "attempt od (data_url d) d Default_engine = (Inl e2, evs2)"
      using all
      by (cases "attempt od (data_url d) d Default_engine") (auto simp: engines_to_try_def)
    show "fst (load_sst_data od d s) = None
         \<and> (\<forall>e. fst (attempt od (data_url d) d (last engines_to_try)) = Inl e
               \<longrightarrow> last (ui (snd (load_sst_data od d s))) = Load_error (Some e))"
      using load_none [OF a1 a2, of s] a2 by (simp add: engines_to_try_def)
  qed
next
  obtain n where "n \<le> length engines_to_try"
    "open_calls (snd (try_engines od (data_url d) d engines_to_try None))
       = map (Pair (data_url d)) (take n engines_to_try)"
    using try_engines_open_calls [of engines_to_try od "data_url d" d None] by blast
  then show "\<exists>n\<le>length engines_to_try.
         open_calls (events (snd (load_sst_data od d s)))
           = open_calls (events s) @ map (Pair (data_url d)) (take n engines_to_try)"
    by (intro exI [of _ n]) (simp add: load_events open_calls_append)
next
  show "(\<exists>e. fst (attempt od (data_url d) d Pydap) = Inl e)
       \<and> fst (attempt od (data_url d) d Default_engine) = Inr data
     \<longrightarrow> fst (load_sst_data od d s) = Some data"
  proof
    assume h: "(\<exists>e. fst (attempt od (data_url d) d Pydap) = Inl e)
       \<and> fst (attempt od (data_url d) d Default_engine) = Inr data"
    obtain e1 evs1 where a1: "attempt od (data_url d) d Pydap = (Inl e1, evs1)"
      using h by (cases "attempt od (data_url d) d Pydap") auto
    obtain evs2 where a2: "attempt od (data_url d) d Default_engine = (Inr data, evs2)"
      using h by (cases "attempt od (data_url d) d Default_engine") auto
    show "fst (load_sst_data od d s) = Some data"
      using load_second [OF a1 a2, of s] by simp
  qed
qed

theorem C2_failure_witness:
  "pydap_broken_remote (url_prefix @ ''2023.nc'') Pydap
     = Inr (example_dataset\<lparr>load_error := Some (OSError ''read timed out'')\<rparr>)
   \<and> fst (attempt pydap_broken_remote (url_prefix @ ''2023.nc'') example_date Pydap)
     = Inl (OSError ''read timed out'')
   \<and> fst (attempt pydap_broken_remote (data_url example_date) example_date Default_engine)
     = Inr example_grid
   \<and> fst (load_sst_data pydap_broken_remote example_date empty_session) = Some example_grid
   \<and> fst (attempt example_remote (data_url unpublished_date) unpublished_date Pydap)
     = Inl (KeyError ''time'')
   \<and> fst (attempt example_remote (data_url unpublished_date) unpublished_date Default_engine)
     = Inl (KeyError ''time'')
   \<and> fst (load_sst_data example_remote unpublished_date empty_session) = None
   \<and> last (ui (snd (load_sst_data example_remote unpublished_date empty_session)))
     = Load_error (Some (KeyError ''time''))"
  using C2_failure_needs_every_attempt_to_fail
      [where od = pydap_broken_remote and url = "url_prefix @ ''2023.nc''" and eng = Pydap
         and ds = "example_dataset\<lparr>load_error := Some (OSError ''read timed out'')\<rparr>"
         and d = example_date and s = empty_session and data = example_grid]
    C2_failure_needs_every_attempt_to_fail
      [where od = example_remote and d = unpublished_date and s = empty_session]
  by (simp add: example_url pydap_broken_attempt example_attempt unpublished_attempt
      engines_to_try_def pydap_broken_remote_def)

text \<open>
  C3. The engine list is pydap, then the default engine. When the pydap attempt returns,
  the fetcher returns its data and the default engine is never opened; when it raises
  and the default attempt returns, that data is returned after one open with each
  engine, pydap first; when both raise, the failure marker is returned and the error
  element carries the exception of the default attempt, the last one observed.
\<close>

theorem C3_engines_in_order_first_success_wins:
  "engines_to_try = [Pydap, Default_engine]
   \<and> (attempt od (data_url d) d Pydap = (Inr data, evs)
      \<longrightarrow> load_sst_data od d s
            = (Some data, s\<lparr>ui := ui s @ [Source_info (data_url d)], events := events s @ evs\<rparr>)
          \<and> open_calls evs = [(data_url d, Pydap)])
   \<and> (attempt od (data_url d) d Pydap = (Inl err_a, evs_a)
       \<and> attempt od (data_url d) d Default_engine = (Inr data, evs_b)
      \<longrightarrow> load_sst_data od d s
            = (Some data,
               s\<lparr>ui := ui s @ [Source_info (data_url d)], events := events s @ evs_a @ evs_b\<rparr>)
          \<and> open_calls (evs_a @ evs_b) = [(data_url d, Pydap), (data_url d, Default_engine)])
   \<and> (attempt od (data_url d) d Pydap = (Inl err_a, evs_a)
       \<and> attempt od (data_url d) d Default_engine = (Inl err_b, evs_b)
      \<longrightarrow> load_sst_data od d s
            = (None,
               s\<lparr>ui := ui s @ [Source_info (data_url d), Load_error (Some err_b)],
                 events := events s @ evs_a @ evs_b\<rparr>)
          \<and> open_calls (evs_a @ evs_b) = [(data_url d, Pydap), (data_url d, Default_engine)])"
proof -
  have oc: "attempt od (data_url d) d eng = (r, es) \<Longrightarrow> open_calls es = [(data_url d, eng)]"
    for eng r es
    using attempt_open_calls [of od "data_url d" d eng] by simp
  show ?thesis
    using load_first [of od d data evs s] load_second [of od d err_a evs_a data evs_b s]
      load_none [of od d err_a evs_a err_b evs_b s] oc
    by (auto simp: engines_to_try_def open_calls_append)
qed

theorem C3_engine_order_witness:
  "load_sst_data example_remote example_date empty_session
     = (Some example_grid,
        \<lparr>events = [Open_call (url_prefix @ ''2023.nc'') Pydap,
                   Opened (url_prefix @ ''2023.nc'') Pydap,
                   Loaded (url_prefix @ ''2023.nc'') Pydap,
                   Closed (url_prefix @ ''2023.nc'') Pydap],
         ui = [Source_info (url_prefix @ ''2023.nc'')],
         cache = Map.empty\<rparr>)
   \<and> fst (load_sst_data pydap_broken_remote example_date empty_session) = Some example_grid
   \<and> open_calls (events (snd (load_sst_data pydap_broken_remote example_date empty_session)))
     = [(url_prefix @ ''2023.nc'', Pydap), (url_prefix @ ''2023.nc'', Default_engine)]
   \<and> fst (load_sst_data example_remote unpublished_date empty_session) = None
   \<and> ui (snd (load_sst_data example_remote unpublished_date empty_session))
     = [Source_info (url_prefix @ ''2023.nc''), Load_error (Some (KeyError ''time''))]
   \<and> open_calls (events (snd (load_sst_data example_remote unpublished_date empty_session)))
     = [(url_prefix @ ''2023.nc'', Pydap), (url_prefix @ ''2023.nc'', Default_engine)]"
  using C3_engines_in_order_first_success_wins
      [where od = example_remote and d = example_date and s = empty_session
         and data = example_grid
         and evs = "snd (attempt example_remote (data_url example_date) example_date Pydap)"]
    C3_engines_in_order_first_success_wins
      [where od = pydap_broken_remote and d = example_date and s = empty_session
         and data = example_grid and err_a = "OSError ''read timed out''"
         and evs_a = "snd (attempt pydap_broken_remote (data_url example_date) example_date Pydap)"
         and evs_b = "snd (attempt example_remote (data_url example_date) example_date
                            Default_engine)"]
    C3_engines_in_order_first_success_wins
      [where od = example_remote and d = unpublished_date and s = empty_session
         and err_a = "KeyError ''time''" and err_b = "KeyError ''time''"
         and evs_a = "snd (attempt example_remote (data_url unpublished_date) unpublished_date
                            Pydap)"
         and evs_b = "snd (attempt example_remote (data_url unpublished_date) unpublished_date
                            Default_engine)"]
  by (simp add: example_url pydap_broken_attempt example_attempt unpublished_attempt
      empty_session_def)

text \<open>
  C9, evaluated on the code. For a date that the year file does not hold yet, both
  engines open the file, the time selection raises, and the function returns the failure
  marker with both handles still open: \<^verbatim>\<open>ds.close()\<close> (line 80) is only reached when
  every step before it has succeeded.
\<close>

theorem C9_handles_left_open:
  "fst (load_sst_data example_remote unpublished_date empty_session) = None
   \<and> open_handles (events (snd (load_sst_data example_remote unpublished_date empty_session)))
     = [(data_url unpublished_date, Pydap), (data_url unpublished_date, Default_engine)]"
  using load_none [of example_remote unpublished_date _ _ _ _ empty_session]
  by (simp add: example_url unpublished_attempt empty_session_def)

subsection \<open>The cache\<close>

lemma load_cache: "cache (snd (load_sst_data od d s)) = cache s"
  by (simp add: load_sst_data_def Let_def split: prod.splits loop_result.splits)

lemma cache_data_hit:
  "cache s k = Some (v, els) \<Longrightarrow> cache_data f k s = (v, s\<lparr>ui := ui s @ els\<rparr>)"
  by (simp add: cache_data_def)

lemma cache_data_stores:
  "\<exists>els. cache (snd (cache_data f k s)) k = Some (fst (cache_data f k s), els)"
  by (cases "cache s k") (auto simp: cache_data_def split: prod.splits)

lemma cache_data_keeps:
  assumes "cache s k = Some x"
  shows "cache (snd (cache_data (load_sst_data od) k' s)) k = Some x"
proof (cases "cache s k'")
  case None
  then have "k' \<noteq> k" using assms by auto
  then show ?thesis
    using None assms load_cache [of od k' s]
    by (cases "load_sst_data od k' s") (simp add: cache_data_def)
next
  case (Some y)
  then show ?thesis using assms by (cases y) (simp add: cache_data_def)
qed

lemma fetches_keep:
  "cache s k = Some x \<Longrightarrow> cache (fetches calls s) k = Some x"
proof (induction calls arbitrary: s)
  case Nil
  then show ?case by (simp add: fetches_def)
next
  case (Cons c calls)
  have "cache (snd (cache_data (load_sst_data (fst c)) (snd c) s)) k = Some x"
    using Cons.prems by (rule cache_data_keeps)
  then have "cache (fetches calls (snd (cache_data (load_sst_data (fst c)) (snd c) s))) k = Some x"
    by (rule Cons.IH)
  then show ?case by (simp add: fetches_def)
qed

lemma example_load:
  "load_sst_data example_remote example_date empty_session
     = (Some example_grid,
        \<lparr>events = [Open_call (url_prefix @ ''2023.nc'') Pydap,
                   Opened (url_prefix @ ''2023.nc'') Pydap,
                   Loaded (url_prefix @ ''2023.nc'') Pydap,
                   Closed (url_prefix @ ''2023.nc'') Pydap],
         ui = [Source_info (url_prefix @ ''2023.nc'')],
         cache = Map.empty\<rparr>)"
  using load_first [of example_remote example_date example_grid _ empty_session]
  by (simp add: example_url example_attempt empty_session_def)

lemma example_cached:
  "cache_data (load_sst_data example_remote) example_date empty_session
     = (Some example_grid,
        \<lparr>events = [Open_call (url_prefix @ ''2023.nc'') Pydap,
                   Opened (url_prefix @ ''2023.nc'') Pydap,
                   Loaded (url_prefix @ ''2023.nc'') Pydap,
                   Closed (url_prefix @ ''2023.nc'') Pydap],
         ui = [Source_info (url_prefix @ ''2023.nc'')],
         cache = [example_date \<mapsto> (Some example_grid, [Source_info (url_prefix @ ''2023.nc'')])]\<rparr>)"
proof -
  have "cache empty_session example_date = None" "ui empty_session = []"
    by (simp_all add: empty_session_def)
  then show ?thesis by (simp add: cache_data_def example_load)
qed

text \<open>
  C4. After a fetch of a date through the cache, a later fetch of the same date in the
  same session, whatever other dates were fetched in between and whatever the service
  answers by then, returns the outcome of the first call (a grid or the failure marker)
  and adds no call to the session: no further open attempt is made.
\<close>

theorem C4_repeated_fetch_is_served_from_cache:
  "fst (cache_data (load_sst_data od2) d
          (fetches calls (snd (cache_data (load_sst_data od1) d s))))
     = fst (cache_data (load_sst_data od1) d s)
   \<and> events (snd (cache_data (load_sst_data od2) d
          (fetches calls (snd (cache_data (load_sst_data od1) d s)))))
     = events (fetches calls (snd (cache_data (load_sst_data od1) d s)))
   \<and> open_calls (events (snd (cache_data (load_sst_data od2) d
          (snd (cache_data (load_sst_data od1) d s)))))
     = open_calls (events (snd (cache_data (load_sst_data od1) d s)))"
proof -
  let ?c1 = "cache_data (load_sst_data od1) d s"
  obtain els where st: "cache (snd ?c1) d = Some (fst ?c1, els)"
    using cache_data_stores [of "load_sst_data od1" d s] by blast
  have k: "cache (fetches calls (snd ?c1)) d = Some (fst ?c1, els)"
    using st by (rule fetches_keep)
  have a: "cache_data (load_sst_data od2) d (fetches calls (snd ?c1))
      = (fst ?c1, (fetches calls (snd ?c1))\<lparr>ui := ui (fetches calls (snd ?c1)) @ els\<rparr>)"
    using k by (rule cache_data_hit)
  have b: "cache_data (load_sst_data od2) d (snd ?c1)
      = (fst ?c1, (snd ?c1)\<lparr>ui := ui (snd ?c1) @ els\<rparr>)"
    using st by (rule cache_data_hit)
  show ?thesis by (simp add: a b)
qed

theorem C4_cache_witness:
  "fst (cache_data (load_sst_data example_remote) example_date empty_session) = Some example_grid
   \<and> fst (cache_data (load_sst_data offline_remote) example_date
          (snd (cache_data (load_sst_data example_remote) example_date empty_session)))
     = Some example_grid
   \<and> open_calls (events (snd (cache_data (load_sst_data offline_remote) example_date
          (snd (cache_data (load_sst_data example_remote) example_date empty_session)))))
     = [(url_prefix @ ''2023.nc'', Pydap)]"
  using C4_repeated_fetch_is_served_from_cache
      [of offline_remote example_date "[]" example_remote empty_session]
  by (simp add: example_cached fetches_def)

subsection \<open>The returned grid\<close>









subsection \<open>The renderers\<close>

lemma renderer_norm:
  assumes "create_map_with_cartopy cp g d = Inr fig \<or> create_simple_latlon_plot g d = Inr fig"
  shows "fig_norm fig = \<lparr>vmin = 20, vcenter = 30, vmax = 34\<rparr> \<and> fig_cmap fig = ''YlOrRd''"
  using assms
proof
  assume "create_map_with_cartopy cp g d = Inr fig"
  then show ?thesis
    by (auto simp: create_map_with_cartopy_def Let_def split: sum.splits option.splits)
next
  assume "create_simple_latlon_plot g d = Inr fig"
  then show ?thesis
    by (auto simp: create_simple_latlon_plot_def Let_def split: sum.splits)
qed

lemma color_center:
  "norm_call \<lparr>vmin = 20, vcenter = 30, vmax = 34\<rparr> (Some 30) = Finite (1 / 2)"
  "cmap_call (Finite (1 / 2)) = Lut 128"
  by (simp_all add: norm_call_def cmap_call_def cmap_N_def)

lemma color_low:
  "v \<le> 20 \<Longrightarrow> cmap_call (norm_call \<lparr>vmin = 20, vcenter = 30, vmax = 34\<rparr> (Some v)) = Lut 0"
  by (simp add: norm_call_def cmap_call_def cmap_N_def)

lemma color_high:
  "34 \<le> v \<Longrightarrow> cmap_call (norm_call \<lparr>vmin = 20, vcenter = 30, vmax = 34\<rparr> (Some v)) = Lut 255"
  by (simp add: norm_call_def cmap_call_def cmap_N_def)

text \<open>
  C6. Every figure that either renderer produces carries the norm with breakpoints 20,
  30 and 34 and the palette \<^verbatim>\<open>YlOrRd\<close>: the value 30 is normalised to one half and drawn
  in the middle entry of the palette, every value of 20 or less in the first entry, every
  value of 34 or more in the last entry; any two figures of the two renderers map values
  to colours in the same way.
\<close>

theorem C6_colour_mapping_of_both_renderers:
  assumes "create_map_with_cartopy cp g d = Inr fig \<or> create_simple_latlon_plot g d = Inr fig"
  shows "fig_norm fig = \<lparr>vmin = 20, vcenter = 30, vmax = 34\<rparr> \<and> fig_cmap fig = ''YlOrRd''
    \<and> norm_call (fig_norm fig) (Some 30) = Finite (1 / 2)
    \<and> fig_color fig (Some 30) = (''YlOrRd'', Lut (cmap_N div 2))
    \<and> (\<forall>v\<le>20. fig_color fig (Some v) = (''YlOrRd'', Lut 0))
    \<and> (\<forall>v\<ge>34. fig_color fig (Some v) = (''YlOrRd'', Lut (cmap_N - 1)))
    \<and> (create_map_with_cartopy cp' g' d' = Inr fig' \<or> create_simple_latlon_plot g' d' = Inr fig'
         \<longrightarrow> fig_norm fig' = fig_norm fig \<and> fig_cmap fig' = fig_cmap fig
             \<and> fig_color fig' = fig_color fig)"
proof -
  have n: "fig_norm fig = \<lparr>vmin = 20, vcenter = 30, vmax = 34\<rparr>" "fig_cmap fig = ''YlOrRd''"
    using renderer_norm [OF assms] by simp_all
  have same: "fig_norm fig' = fig_norm fig \<and> fig_cmap fig' = fig_cmap fig
             \<and> fig_color fig' = fig_color fig"
    if "create_map_with_cartopy cp' g' d' = Inr fig' \<or> create_simple_latlon_plot g' d' = Inr fig'"
    using renderer_norm [OF that] n by (simp add: fig_color_def fun_eq_iff)
  show ?thesis
    using n same color_center color_low color_high
    by (simp add: fig_color_def cmap_N_def)
qed

lemma example_plain: "create_simple_latlon_plot example_grid example_date = Inr example_figure"
  by (simp add: create_simple_latlon_plot_def pcolormesh_def example_grid_def
      example_figure_def)

lemma example_projected:
  "create_map_with_cartopy example_cartopy example_grid example_date = Inr example_map"
  by (simp add: create_map_with_cartopy_def pcolormesh_def example_grid_def
      example_map_def example_cartopy_def)

theorem C6_colour_witness:
  "create_simple_latlon_plot example_grid example_date = Inr example_figure
   \<and> create_map_with_cartopy example_cartopy example_grid example_date = Inr example_map
   \<and> fig_color example_figure (Some 30) = (''YlOrRd'', Lut 128)
   \<and> (15::real) \<le> 20 \<and> fig_color example_figure (Some 15) = (''YlOrRd'', Lut 0)
   \<and> (36::real) \<ge> 34 \<and> fig_color example_figure (Some 36) = (''YlOrRd'', Lut 255)
   \<and> fig_color example_map = fig_color example_figure"
  using C6_colour_mapping_of_both_renderers
      [where fig = example_figure and g = example_grid and d = example_date
         and cp = example_cartopy and cp' = example_cartopy and g' = example_grid
         and d' = example_date and fig' = example_map]
  by (simp add: example_plain example_projected cmap_N_def)



lemma not_all_null_nonempty:
  assumes "\<not> isnull_all g"
  shows "lat g \<noteq> [] \<and> lon g \<noteq> []"
  using assms by (auto simp: isnull_all_def list_all_iff)



subsection \<open>The page\<close>

lemma main_no_date: "main fe hc cp od None s0 = (None, page_head fe s0)"
  by (simp add: main_def page_head_def Let_def)

lemma main_no_data:
  assumes "cache_data (load_sst_data od) d (page_head fe s0) = (r, s3)"
    and "r = None \<or> (\<exists>g. r = Some g \<and> isnull_all g)"
  shows "main fe hc cp od (Some d) s0 = (None, s3\<lparr>ui := ui s3 @ [No_data_info]\<rparr>)"
  using assms by (auto simp: main_def page_head_def Let_def)

lemma main_render:
  assumes "cache_data (load_sst_data od) d (page_head fe s0) = (Some g, s3)"
    and "\<not> isnull_all g"
  shows "events (snd (main fe hc cp od (Some d) s0))
      = events s3 @ [Render (if hc then Cartopy_renderer else Plain_renderer) g d]"
  using assms
  by (auto simp: main_def page_head_def Let_def split: sum.splits prod.splits)

text \<open>
  C10. Let the fetch of the selected date (through the cache) give the outcome \<open>r\<close>.
  When \<open>r\<close> is the failure marker or a grid whose values are all missing, \<^verbatim>\<open>main\<close> calls
  no renderer and adds only the notice of line 205 to the page. When \<open>r\<close> is a grid with a
  value that is not missing, exactly one renderer is called, with that grid, whose
  coordinate arrays are then not empty: the projected one if cartopy is present, the
  plain one otherwise. So a renderer is only ever called with such a grid. Without a
  selected date nothing is fetched or drawn.
\<close>

theorem C10_renderer_only_for_grid_with_data:
  assumes "cache_data (load_sst_data od) d (page_head fe s0) = (r, s3)"
  shows "(r = None \<or> (\<exists>g. r = Some g \<and> isnull_all g)
      \<longrightarrow> main fe hc cp od (Some d) s0 = (None, s3\<lparr>ui := ui s3 @ [No_data_info]\<rparr>))
    \<and> (\<forall>g. r = Some g \<and> \<not> isnull_all g
      \<longrightarrow> events (snd (main fe hc cp od (Some d) s0))
            = events s3 @ [Render (if hc then Cartopy_renderer else Plain_renderer) g d]
          \<and> lat g \<noteq> [] \<and> lon g \<noteq> [])
    \<and> (\<forall>rn g' d'. Render rn g' d'
            \<in> set (drop (length (events s3)) (events (snd (main fe hc cp od (Some d) s0))))
      \<longrightarrow> r = Some g' \<and> \<not> isnull_all g' \<and> lat g' \<noteq> [] \<and> lon g' \<noteq> [] \<and> d' = d
          \<and> rn = (if hc then Cartopy_renderer else Plain_renderer))
    \<and> main fe hc cp od None s0 = (None, page_head fe s0)"
proof (cases "r = None \<or> (\<exists>g. r = Some g \<and> isnull_all g)")
  case True
  have m: "main fe hc cp od (Some d) s0 = (None, s3\<lparr>ui := ui s3 @ [No_data_info]\<rparr>)"
    using assms True by (rule main_no_data)
  show ?thesis using True m main_no_date by auto
next
  case False
  then obtain g where g: "r = Some g" "\<not> isnull_all g" by auto
  have m: "events (snd (main fe hc cp od (Some d) s0))
      = events s3 @ [Render (if hc then Cartopy_renderer else Plain_renderer) g d]"
    using assms g main_render [of od d fe s0 g s3 hc cp] by simp
  show ?thesis
    using False g m not_all_null_nonempty [OF g(2)] main_no_date by auto
qed

lemma example_page_fetch:
  "fst (cache_data (load_sst_data example_remote) example_date (page_head False empty_session))
     = Some example_grid"
  "events (snd (cache_data (load_sst_data example_remote) example_date
                  (page_head False empty_session)))
     = [Open_call (url_prefix @ ''2023.nc'') Pydap, Opened (url_prefix @ ''2023.nc'') Pydap,
        Loaded (url_prefix @ ''2023.nc'') Pydap, Closed (url_prefix @ ''2023.nc'') Pydap]"
  using load_first [of example_remote example_date example_grid _ "page_head False empty_session"]
  by (simp_all add: cache_data_def example_url example_attempt page_head_def
      setup_korean_font_def empty_session_def)

lemma unpublished_page_fetch:
  "fst (cache_data (load_sst_data example_remote) unpublished_date (page_head True empty_session))
     = None"
  using load_none [of example_remote unpublished_date _ _ _ _ "page_head True empty_session"]
  by (simp add: cache_data_def example_url unpublished_attempt page_head_def
      setup_korean_font_def empty_session_def)

lemma example_grid_has_data: "\<not> isnull_all example_grid"
  by (simp add: isnull_all_def example_grid_def example_variable_def upt_rec [of 0]
      upt_rec [of 1])

theorem C10_renderer_witness:
  "fst (cache_data (load_sst_data example_remote) example_date (page_head False empty_session))
     = Some example_grid
   \<and> \<not> isnull_all example_grid
   \<and> events (snd (main False False example_cartopy example_remote (Some example_date)
                     empty_session))
     = [Open_call (url_prefix @ ''2023.nc'') Pydap, Opened (url_prefix @ ''2023.nc'') Pydap,
        Loaded (url_prefix @ ''2023.nc'') Pydap, Closed (url_prefix @ ''2023.nc'') Pydap,
        Render Plain_renderer example_grid example_date]
   \<and> fst (cache_data (load_sst_data example_remote) unpublished_date
            (page_head True empty_session)) = None
   \<and> fst (main True True example_cartopy example_remote (Some unpublished_date) empty_session)
     = None
   \<and> last (ui (snd (main True True example_cartopy example_remote (Some unpublished_date)
                      empty_session))) = No_data_info"
proof -
  have a: "cache_data (load_sst_data example_remote) example_date (page_head False empty_session)
      = (Some example_grid,
         snd (cache_data (load_sst_data example_remote) example_date
                (page_head False empty_session)))"
    using example_page_fetch(1) by (simp add: prod_eq_iff)
  have b: "cache_data (load_sst_data example_remote) unpublished_date
             (page_head True empty_session)
      = (None,
         snd (cache_data (load_sst_data example_remote) unpublished_date
                (page_head True empty_session)))"
    using unpublished_page_fetch by (simp add: prod_eq_iff)
  have i1: "events (snd (main False False example_cartopy example_remote (Some example_date)
                     empty_session))
     = events (snd (cache_data (load_sst_data example_remote) example_date
                (page_head False empty_session)))
       @ [Render (if False then Cartopy_renderer else Plain_renderer) example_grid example_date]"
    using C10_renderer_only_for_grid_with_data [OF a, of False example_cartopy]
      example_grid_has_data by blast
  have i2: "main True True example_cartopy example_remote (Some unpublished_date) empty_session
     = (None, (snd (cache_data (load_sst_data example_remote) unpublished_date
                (page_head True empty_session)))
           \<lparr>ui := ui (snd (cache_data (load_sst_data example_remote) unpublished_date
                (page_head True empty_session))) @ [No_data_info]\<rparr>)"
    using C10_renderer_only_for_grid_with_data [OF b, of True example_cartopy] by blast
  show ?thesis
    using i1 by (simp add: i2 example_page_fetch unpublished_page_fetch example_grid_has_data)
qed

end
